theory Spec2Isabelle
  imports Complex_Main
begin

section \<open>Values of the host language\<close>

text \<open>
  A JavaScript string is a HOL \<^typ>\<open>string\<close> holding the UTF-8 bytes of the text.
  An \<open>Error\<close> object is a value with the fields the logger reads or writes: its
  \<open>name\<close>, \<open>message\<close>, \<open>stack\<close> (which may be undefined) and \<open>cause\<close>. The module
  is in strict mode, where an assignment to a property that cannot be written
  throws a \<open>TypeError\<close>: \<open>message_writable\<close> and \<open>cause_writable\<close> say whether
  \<open>message\<close> and \<open>cause\<close> of the object can be assigned (neither can on a frozen
  error; \<open>message\<close> cannot on a \<open>DOMException\<close>).
\<close>

datatype js_error =
  JsError (name: string) (message: string) (stack: "string option") (cause: "js_error option")
    (message_writable: bool) (cause_writable: bool)

text \<open>
  \<open>new Error(s)\<close> on the host: the name is inherited, the host fills in a stack,
  and every property of the new object can be assigned.
\<close>

definition new_Error :: "string \<Rightarrow> string \<Rightarrow> js_error" where
  "new_Error host_stack s = JsError ''Error'' s (Some host_stack) None True True"

text \<open>\<open>Error.prototype.toString\<close>.\<close>

definition error_toString :: "js_error \<Rightarrow> string" where
  "error_toString x =
     (if name x = [] then message x
      else if message x = [] then name x
      else name x @ '': '' @ message x)"

text \<open>A value of type \<open>string | Error\<close>, and its coercion to a string.\<close>

datatype str_or_error = Str string | Err js_error

fun js_to_string :: "str_or_error \<Rightarrow> string" where
  "js_to_string (Str s) = s"
| "js_to_string (Err x) = error_toString x"

text \<open>
  An optional property of an object literal is absent, present with the value
  \<open>undefined\<close>, or present with a value; object spread copies the last two.
\<close>

datatype 'a property = Absent | Undefined | Given 'a

fun truthy :: "bool property \<Rightarrow> bool" where
  "truthy (Given b) = b"
| "truthy _ = False"

text \<open>\<open>{ ...a, ...b }\<close> on one property: an own property of \<open>b\<close> wins.\<close>

fun spread :: "'a property \<Rightarrow> 'a property \<Rightarrow> 'a property" where
  "spread a Absent = a"
| "spread a b = b"

text \<open>
  A value of type \<open>number\<close>, and \<open><=\<close> on two of them: a comparison with \<open>NaN\<close>
  is false, also that of \<open>NaN\<close> with itself.
\<close>

datatype js_number = NaN | NegInfinity | Finite real | PosInfinity

fun js_le :: "js_number \<Rightarrow> js_number \<Rightarrow> bool" where
  "js_le NaN y = False"
| "js_le x NaN = False"
| "js_le NegInfinity y = True"
| "js_le x PosInfinity = True"
| "js_le (Finite a) (Finite b) = (a \<le> b)"
| "js_le PosInfinity y = False"
| "js_le (Finite a) NegInfinity = False"

section \<open>The colour module\<close>

text \<open>
  The colour transforms come from \<open>color.js\<close>, which is not among the sources: they
  are parameters. A transform takes text and returns text; applied to an \<open>Error\<close>
  it sees the error's string form.
\<close>

type_synonym ColorFunction = "string \<Rightarrow> string"

record colors =
  bold :: ColorFunction
  dim :: ColorFunction
  green :: ColorFunction
  yellow :: ColorFunction
  red :: ColorFunction
  blue :: ColorFunction
  magenta :: ColorFunction
  cyan :: ColorFunction
  debugColor :: ColorFunction
  brandColor :: ColorFunction

section \<open>The process: console, screen and the once-only sets\<close>

datatype console_method = MLog | MWarn | MError

datatype event = ClearScreen | Console console_method string

text \<open>
  The key of a value in a JavaScript \<open>Set\<close>: a string by its text, an object by
  its identity.
\<close>

datatype set_key = KeyStr string | KeyObj nat

record world =
  console :: "event list"
  warnOnceMessages :: "set_key set"
  infoOnceMessages :: "set_key set"
  errorOnceMessages :: "set_key set"

definition initial_world :: world where
  "initial_world =
     \<lparr>console = [], warnOnceMessages = {}, infoOnceMessages = {}, errorOnceMessages = {}\<rparr>"

definition console_call :: "console_method \<Rightarrow> string \<Rightarrow> world \<Rightarrow> world" where
  "console_call m line w = w\<lparr>console := console w @ [Console m line]\<rparr>"

definition clearScreen :: "world \<Rightarrow> world" where
  "clearScreen w = w\<lparr>console := console w @ [ClearScreen]\<rparr>"

text \<open>
  The private field \<open>clear\<close> of a logger holds one of two functions: \<open>clearScreen\<close>
  of \<open>share.js\<close> (not among the sources; the model records that the screen was
  cleared) or the empty function.
\<close>

datatype clear_function = ClearScreenFunction | EmptyFunction

fun call_clear :: "clear_function \<Rightarrow> world \<Rightarrow> world" where
  "call_clear ClearScreenFunction w = clearScreen w"
| "call_clear EmptyFunction w = w"

text \<open>How a call ends: it returns, the process exits, or a value is thrown.\<close>

datatype thrown = TypeError | Thrown js_error

datatype outcome = Returned | Exited int | Raised thrown

section \<open>Logger\<close>

datatype LogLevel = Trace | Debug | Info | Warn | Error

record ErrorOptions =
  eo_exit :: "bool property"
  eo_e :: "js_error option"
  eo_error :: "js_error option"

text \<open>
  The options object of a logger is the caller's: the constructor and \<open>setPrefix\<close>
  assign its \<open>prefix\<close>, which throws a \<open>TypeError\<close> when that property cannot be
  written (on a frozen object); \<open>lo_prefix_writable\<close> says whether it can.
\<close>

record LoggerOptions =
  lo_prefix :: "string option"
  lo_allowClearScreen :: "bool option"
  lo_brandColor :: "ColorFunction option"
  lo_exit :: "bool property"
  lo_prefix_writable :: bool

definition LOGGER_METHOD :: "LogLevel \<rightharpoonup> console_method" where
  "LOGGER_METHOD = [Info \<mapsto> MLog, Warn \<mapsto> MWarn, Error \<mapsto> MError]"

text \<open>
  The fields of a \<open>Logger\<close>. The ranks of \<open>levelValues\<close> are numbers: the second
  argument of the constructor may be any table of them.
\<close>

record Logger =
  options :: LoggerOptions
  canClearScreen :: bool
  levelValues :: "LogLevel \<Rightarrow> js_number"
  colorMap :: "LogLevel \<Rightarrow> ColorFunction"
  clear :: clear_function

record environment =
  isTTY :: bool
  CI :: bool

fun default_levelValues :: "LogLevel \<Rightarrow> js_number" where
  "default_levelValues Trace = Finite 0"
| "default_levelValues Debug = Finite 1"
| "default_levelValues Info = Finite 2"
| "default_levelValues Warn = Finite 3"
| "default_levelValues Error = Finite 4"

fun default_colorMap :: "colors \<Rightarrow> LogLevel \<Rightarrow> ColorFunction" where
  "default_colorMap cs Trace = green cs"
| "default_colorMap cs Debug = debugColor cs"
| "default_colorMap cs Info = brandColor cs"
| "default_colorMap cs Warn = yellow cs"
| "default_colorMap cs Error = red cs"

definition brandPrefix ::
  "colors \<Rightarrow> ColorFunction option \<Rightarrow> Logger \<Rightarrow> thrown + Logger" where
  "brandPrefix cs color this =
     (let prefix = (case lo_prefix (options this) of None \<Rightarrow> ''Farm'' | Some p \<Rightarrow> p);
          formattedName = bold cs prefix;
          formattedPrefix = bold cs (''[ '' @ formattedName @ '' ]'')
      in if lo_prefix_writable (options this) then
           Inr (this\<lparr>options := (options this)
                  \<lparr>lo_prefix := Some (case color of Some c \<Rightarrow> c formattedPrefix
                                        | None \<Rightarrow> formattedPrefix)\<rparr>\<rparr>)
         else Inl TypeError)"

text \<open>The object \<open>{}\<close> that the constructor makes when it is given no options.\<close>

definition empty_options :: LoggerOptions where
  "empty_options =
     \<lparr>lo_prefix = None, lo_allowClearScreen = None, lo_brandColor = None, lo_exit = Absent,
      lo_prefix_writable = True\<rparr>"

definition Logger_new ::
  "colors \<Rightarrow> environment \<Rightarrow> LoggerOptions option \<Rightarrow> (LogLevel \<Rightarrow> js_number) option
     \<Rightarrow> thrown + Logger" where
  "Logger_new cs env opts lv =
     (let os = (case opts of None \<Rightarrow> empty_options | Some os \<Rightarrow> os);
          can = (lo_allowClearScreen os = Some True \<and> isTTY env \<and> \<not> CI env)
      in brandPrefix cs None
           \<lparr>options = os,
            canClearScreen = can,
            levelValues = (case lv of None \<Rightarrow> default_levelValues | Some t \<Rightarrow> t),
            colorMap = default_colorMap cs,
            clear = (if can then ClearScreenFunction else EmptyFunction)\<rparr>)"

text \<open>The template \<open>`${this.options.prefix} `\<close>: an undefined prefix prints as such.\<close>

definition prefix_text :: "Logger \<Rightarrow> string" where
  "prefix_text this =
     (case lo_prefix (options this) of None \<Rightarrow> ''undefined'' | Some p \<Rightarrow> p) @ '' ''"

text \<open>\<open>this.canClearScreen && this.clear()\<close>\<close>

definition clear_if_allowed :: "Logger \<Rightarrow> world \<Rightarrow> world" where
  "clear_if_allowed this w = (if canClearScreen this then call_clear (clear this) w else w)"

definition logMessage ::
  "Logger \<Rightarrow> LogLevel \<Rightarrow> str_or_error \<Rightarrow> ColorFunction option \<Rightarrow> bool \<Rightarrow> world \<Rightarrow> world" where
  "logMessage this level msg color showBanner w =
     (let loggerMethod = (case LOGGER_METHOD level of Some m \<Rightarrow> m | None \<Rightarrow> MLog)
      in if js_le (levelValues this level) (levelValues this level) then
           (let w1 = clear_if_allowed this w;
                prefix = (if showBanner then prefix_text this else '''');
                prefixColor = colorMap this level;
                loggerMessage = (case color of Some c \<Rightarrow> c (js_to_string msg)
                                 | None \<Rightarrow> js_to_string msg)
            in console_call loggerMethod (prefixColor prefix @ loggerMessage) w1)
         else w)"

definition setPrefix :: "colors \<Rightarrow> LoggerOptions \<Rightarrow> Logger \<Rightarrow> thrown + Logger" where
  "setPrefix cs os this =
     (case lo_prefix os of
        None \<Rightarrow> Inr this
      | Some p \<Rightarrow>
          if p = [] then Inr this
          else if lo_prefix_writable (options this) then
            brandPrefix cs (lo_brandColor os)
              (this\<lparr>options := (options this)\<lparr>lo_prefix := Some p\<rparr>\<rparr>)
          else Inl TypeError)"

definition Logger_trace :: "colors \<Rightarrow> Logger \<Rightarrow> string \<Rightarrow> world \<Rightarrow> world" where
  "Logger_trace cs this s = logMessage this Trace (Str s) (Some (magenta cs)) True"

definition Logger_debug :: "colors \<Rightarrow> Logger \<Rightarrow> string \<Rightarrow> world \<Rightarrow> world" where
  "Logger_debug cs this s = logMessage this Debug (Str s) (Some (blue cs)) True"

definition Logger_info :: "colors \<Rightarrow> Logger \<Rightarrow> string \<Rightarrow> world \<Rightarrow> world" where
  "Logger_info cs this s = logMessage this Info (Str s) None True"

definition Logger_warn :: "colors \<Rightarrow> Logger \<Rightarrow> string \<Rightarrow> world \<Rightarrow> world" where
  "Logger_warn cs this s = logMessage this Warn (Str s) (Some (yellow cs)) True"

text \<open>
  The argument of \<open>error\<close> and \<open>errorOnce\<close>: a string, or an \<open>Error\<close> object passed
  by reference, given by its identity and its fields at the time of the call.
\<close>

datatype message_arg = Text string | Object nat js_error

fun arg_value :: "message_arg \<Rightarrow> str_or_error" where
  "arg_value (Text s) = Str s"
| "arg_value (Object r x) = Err x"

fun arg_key :: "message_arg \<Rightarrow> set_key" where
  "arg_key (Text s) = KeyStr s"
| "arg_key (Object r x) = KeyObj r"

fun set_stack :: "js_error \<Rightarrow> string \<Rightarrow> js_error" where
  "set_stack (JsError n m st c mw cw) st' = JsError n m (Some st') c mw cw"

fun set_message :: "js_error \<Rightarrow> string \<Rightarrow> js_error" where
  "set_message (JsError n m st c mw cw) m' = JsError n m' st c mw cw"

fun set_cause :: "js_error \<Rightarrow> js_error \<Rightarrow> js_error" where
  "set_cause (JsError n m st c mw cw) c' = JsError n m st (Some c') mw cw"

text \<open>\<open>errorOptions?.e || errorOptions?.error\<close>\<close>

definition cause_of :: "ErrorOptions option \<Rightarrow> js_error option" where
  "cause_of errorOptions =
     (case errorOptions of
        None \<Rightarrow> None
      | Some eo \<Rightarrow> (case eo_e eo of Some c \<Rightarrow> Some c | None \<Rightarrow> eo_error eo))"

text \<open>Lines 136 to 143 of \<open>Logger.error\<close>: a string becomes an error with an empty stack.\<close>

definition wrap_message :: "string \<Rightarrow> str_or_error \<Rightarrow> js_error" where
  "wrap_message host_stack msg =
     (case msg of
        Str s \<Rightarrow> set_stack (new_Error host_stack s) []
      | Err x \<Rightarrow> x)"

text \<open>
  Lines 145 to 147: \<open>error.message += `\nCaused by: ${causeError.stack ?? causeError}`\<close>.
  With a cause, the assignment throws a \<open>TypeError\<close> when the message of the error
  cannot be written.
\<close>

definition chain_cause :: "js_error option \<Rightarrow> js_error \<Rightarrow> thrown + js_error" where
  "chain_cause causeError err =
     (case causeError of
        None \<Rightarrow> Inr err
      | Some c \<Rightarrow>
          if message_writable err then
            Inr (set_message err
                   (message err @ CHR 0x0A # ''Caused by: '' @
                      (case stack c of Some st \<Rightarrow> st | None \<Rightarrow> error_toString c)))
          else Inl TypeError)"

text \<open>
  \<open>Logger.error\<close>. The string \<open>host_stack\<close> is the stack the host records in a new
  error. A \<open>TypeError\<close> of the assignment leaves the method before anything is
  written and before the exit is decided. When the message is an error object, the
  assignment to its \<open>message\<close> changes the caller's object; the model keeps the
  changed error for the line it writes and does not hand it back.
\<close>

definition Logger_error ::
  "colors \<Rightarrow> string \<Rightarrow> Logger \<Rightarrow> str_or_error \<Rightarrow> ErrorOptions option \<Rightarrow> world
     \<Rightarrow> outcome \<times> world" where
  "Logger_error cs host_stack this msg errorOptions w =
     (let effective_exit =
            spread (lo_exit (options this))
              (case errorOptions of None \<Rightarrow> Absent | Some eo \<Rightarrow> eo_exit eo);
          causeError = cause_of errorOptions
      in case chain_cause causeError (wrap_message host_stack msg) of
           Inl t \<Rightarrow> (Raised t, w)
         | Inr err \<Rightarrow>
             (let w' = logMessage this Error (Err err) (Some (red cs)) True w
              in if truthy effective_exit then (Exited 1, w') else (Returned, w')))"

definition Logger_infoOnce :: "colors \<Rightarrow> Logger \<Rightarrow> string \<Rightarrow> world \<Rightarrow> world" where
  "Logger_infoOnce cs this s w =
     (if KeyStr s \<notin> infoOnceMessages w
      then Logger_info cs this s (w\<lparr>infoOnceMessages := insert (KeyStr s) (infoOnceMessages w)\<rparr>)
      else w)"

definition Logger_warnOnce :: "colors \<Rightarrow> Logger \<Rightarrow> string \<Rightarrow> world \<Rightarrow> world" where
  "Logger_warnOnce cs this s w =
     (if KeyStr s \<notin> warnOnceMessages w
      then Logger_warn cs this s (w\<lparr>warnOnceMessages := insert (KeyStr s) (warnOnceMessages w)\<rparr>)
      else w)"

definition Logger_errorOnce ::
  "colors \<Rightarrow> string \<Rightarrow> Logger \<Rightarrow> message_arg \<Rightarrow> world \<Rightarrow> outcome \<times> world" where
  "Logger_errorOnce cs host_stack this m w =
     (if arg_key m \<notin> errorOnceMessages w
      then Logger_error cs host_stack this (arg_value m) None
             (w\<lparr>errorOnceMessages := insert (arg_key m) (errorOnceMessages w)\<rparr>)
      else (Returned, w))"



section \<open>NoopLogger\<close>

text \<open>
  The subclass overrides every method. All are empty but \<open>error\<close>, which reads
  \<open>_errorOptions.exit\<close> before anything else: on an undefined \<open>_errorOptions\<close> that
  read throws a \<open>TypeError\<close>. So does the assignment \<open>e.cause = ...\<close> when the
  cause of the error cannot be written.
\<close>

definition NoopLogger_setPrefix :: "LoggerOptions \<Rightarrow> Logger \<Rightarrow> Logger" where
  "NoopLogger_setPrefix os this = this"

definition NoopLogger_trace :: "Logger \<Rightarrow> string \<Rightarrow> world \<Rightarrow> world" where
  "NoopLogger_trace this s w = w"

definition NoopLogger_debug :: "Logger \<Rightarrow> string \<Rightarrow> world \<Rightarrow> world" where
  "NoopLogger_debug this s w = w"

definition NoopLogger_info :: "Logger \<Rightarrow> string \<Rightarrow> world \<Rightarrow> world" where
  "NoopLogger_info this s w = w"

definition NoopLogger_warn :: "Logger \<Rightarrow> string \<Rightarrow> world \<Rightarrow> world" where
  "NoopLogger_warn this s w = w"

definition NoopLogger_error ::
  "string \<Rightarrow> Logger \<Rightarrow> str_or_error \<Rightarrow> ErrorOptions option \<Rightarrow> world \<Rightarrow> outcome \<times> world" where
  "NoopLogger_error host_stack this msg errorOptions w =
     (case errorOptions of
        None \<Rightarrow> (Raised TypeError, w)
      | Some eo \<Rightarrow>
          if truthy (eo_exit eo) then
            (let e = (case msg of Err x \<Rightarrow> x | Str s \<Rightarrow> new_Error host_stack s)
             in case cause_of errorOptions of
                  None \<Rightarrow> (Raised (Thrown e), w)
                | Some c \<Rightarrow>
                    if cause_writable e then (Raised (Thrown (set_cause e c)), w)
                    else (Raised TypeError, w))
          else (Returned, w))"

definition NoopLogger_infoOnce :: "Logger \<Rightarrow> string \<Rightarrow> world \<Rightarrow> world" where
  "NoopLogger_infoOnce this s w = w"

definition NoopLogger_warnOnce :: "Logger \<Rightarrow> string \<Rightarrow> world \<Rightarrow> world" where
  "NoopLogger_warnOnce this s w = w"

definition NoopLogger_errorOnce :: "Logger \<Rightarrow> message_arg \<Rightarrow> world \<Rightarrow> world" where
  "NoopLogger_errorOnce this m w = w"

definition NoopLogger_hasErrorLogged :: "message_arg \<Rightarrow> world \<Rightarrow> bool" where
  "NoopLogger_hasErrorLogged m w = False"

definition NoopLogger_hasWarnLogged :: "string \<Rightarrow> world \<Rightarrow> bool" where
  "NoopLogger_hasWarnLogged s w = False"

text \<open>\<open>bootstrapLogger\<close> constructs a standard logger with the default ranks.\<close>

definition bootstrapLogger ::
  "colors \<Rightarrow> environment \<Rightarrow> LoggerOptions option \<Rightarrow> thrown + Logger" where
  "bootstrapLogger cs env opts = Logger_new cs env opts None"

section \<open>Calls on either kind of logger, and runs of a process\<close>

datatype ILogger = Standard Logger | Noop Logger

datatype call =
  CallTrace string
| CallDebug string
| CallInfo string
| CallWarn string
| CallError message_arg "ErrorOptions option"
| CallInfoOnce string
| CallWarnOnce string
| CallErrorOnce message_arg

fun invoke :: "colors \<Rightarrow> string \<Rightarrow> ILogger \<Rightarrow> call \<Rightarrow> world \<Rightarrow> outcome \<times> world" where
  "invoke cs hs (Standard l) (CallTrace s) w = (Returned, Logger_trace cs l s w)"
| "invoke cs hs (Standard l) (CallDebug s) w = (Returned, Logger_debug cs l s w)"
| "invoke cs hs (Standard l) (CallInfo s) w = (Returned, Logger_info cs l s w)"
| "invoke cs hs (Standard l) (CallWarn s) w = (Returned, Logger_warn cs l s w)"
| "invoke cs hs (Standard l) (CallError m eo) w = Logger_error cs hs l (arg_value m) eo w"
| "invoke cs hs (Standard l) (CallInfoOnce s) w = (Returned, Logger_infoOnce cs l s w)"
| "invoke cs hs (Standard l) (CallWarnOnce s) w = (Returned, Logger_warnOnce cs l s w)"
| "invoke cs hs (Standard l) (CallErrorOnce m) w = Logger_errorOnce cs hs l m w"
| "invoke cs hs (Noop l) (CallTrace s) w = (Returned, NoopLogger_trace l s w)"
| "invoke cs hs (Noop l) (CallDebug s) w = (Returned, NoopLogger_debug l s w)"
| "invoke cs hs (Noop l) (CallInfo s) w = (Returned, NoopLogger_info l s w)"
| "invoke cs hs (Noop l) (CallWarn s) w = (Returned, NoopLogger_warn l s w)"
| "invoke cs hs (Noop l) (CallError m eo) w = NoopLogger_error hs l (arg_value m) eo w"
| "invoke cs hs (Noop l) (CallInfoOnce s) w = (Returned, NoopLogger_infoOnce l s w)"
| "invoke cs hs (Noop l) (CallWarnOnce s) w = (Returned, NoopLogger_warnOnce l s w)"
| "invoke cs hs (Noop l) (CallErrorOnce m) w = (Returned, NoopLogger_errorOnce l m w)"


section \<open>buildErrorMessage\<close>

definition newline :: char where
  "newline = CHR 0x0A"

text \<open>\<open>String.prototype.split(/\n/g)\<close> and \<open>Array.prototype.join\<close>.\<close>

fun split_newline :: "string \<Rightarrow> string list" where
  "split_newline [] = [[]]"
| "split_newline (c # cs) =
     (if c = newline then [] # split_newline cs
      else (case split_newline cs of l # ls \<Rightarrow> (c # l) # ls | [] \<Rightarrow> [[c]]))"

fun join :: "string \<Rightarrow> string list \<Rightarrow> string" where
  "join sep [] = []"
| "join sep [x] = x"
| "join sep (x # y # ys) = x @ sep @ join sep (y # ys)"

text \<open>
  The characters that \<open>\s\<close> matches (white space and line terminators of the
  language), each in UTF-8: U+0009 to U+000D, U+0020, U+00A0, U+1680, U+2000 to
  U+200A, U+2028, U+2029, U+202F, U+205F, U+3000 and U+FEFF.
\<close>

definition js_whitespace :: "string list" where
  "js_whitespace =
     [[CHR 0x09], [CHR 0x0A], [CHR 0x0B], [CHR 0x0C], [CHR 0x0D], [CHR 0x20],
      [CHR 0xC2, CHR 0xA0],
      [CHR 0xE1, CHR 0x9A, CHR 0x80],
      [CHR 0xE2, CHR 0x80, CHR 0x80], [CHR 0xE2, CHR 0x80, CHR 0x81],
      [CHR 0xE2, CHR 0x80, CHR 0x82], [CHR 0xE2, CHR 0x80, CHR 0x83],
      [CHR 0xE2, CHR 0x80, CHR 0x84], [CHR 0xE2, CHR 0x80, CHR 0x85],
      [CHR 0xE2, CHR 0x80, CHR 0x86], [CHR 0xE2, CHR 0x80, CHR 0x87],
      [CHR 0xE2, CHR 0x80, CHR 0x88], [CHR 0xE2, CHR 0x80, CHR 0x89],
      [CHR 0xE2, CHR 0x80, CHR 0x8A],
      [CHR 0xE2, CHR 0x80, CHR 0xA8], [CHR 0xE2, CHR 0x80, CHR 0xA9],
      [CHR 0xE2, CHR 0x80, CHR 0xAF],
      [CHR 0xE2, CHR 0x81, CHR 0x9F],
      [CHR 0xE3, CHR 0x80, CHR 0x80],
      [CHR 0xEF, CHR 0xBB, CHR 0xBF]]"

text \<open>The white-space character a line starts with, if it starts with one.\<close>

definition leading_space :: "string \<Rightarrow> string option" where
  "leading_space l = find (\<lambda>ws. take (length ws) l = ws) js_whitespace"

lemma leading_space_shorter:
  assumes "leading_space l = Some ws"
  shows "length l - length ws < length l"
proof -
  from assms have mem: "ws \<in> set js_whitespace" and pre: "take (length ws) l = ws"
    by (auto simp: leading_space_def find_Some_iff)
  from mem have pos: "0 < length ws"
    by (auto simp: js_whitespace_def)
  from pre have "length (take (length ws) l) = length ws"
    by simp
  then have "length ws \<le> length l"
    by simp
  with pos show ?thesis
    by arith
qed

text \<open>\<open>/^\s*at/.test(l)\<close>: any run of white space, then the letters \<open>at\<close>.\<close>

function at_pattern :: "string \<Rightarrow> bool" where
  "at_pattern l =
     (if take 2 l = ''at'' then True
      else (case leading_space l of
              None \<Rightarrow> False
            | Some ws \<Rightarrow> at_pattern (drop (length ws) l)))"
  by pat_completeness auto
termination
  by (relation "measure length") (auto simp: leading_space_shorter)

definition cleanStack :: "string \<Rightarrow> string" where
  "cleanStack st = join [newline] (filter at_pattern (split_newline st))"

text \<open>A number in a template string: line and column numbers are integers.\<close>

fun show_nat :: "nat \<Rightarrow> string" where
  "show_nat n =
     (if n < 10 then [''0123456789'' ! n]
      else show_nat (n div 10) @ [''0123456789'' ! (n mod 10)])"

definition show_int :: "int \<Rightarrow> string" where
  "show_int i = (if i < 0 then CHR ''-'' # show_nat (nat (- i)) else show_nat (nat i))"

text \<open>
  The failure object \<open>err\<close>: each field may be missing. A field that holds the
  empty string is falsy, like a missing one.
\<close>

record Loc =
  line :: int
  column :: int

record Failure =
  err_plugin :: "string option"
  err_loc :: "Loc option"
  err_id :: "string option"
  err_frame :: "string option"
  err_stack :: "string option"

fun truthy_string :: "string option \<Rightarrow> bool" where
  "truthy_string None = False"
| "truthy_string (Some s) = (s \<noteq> [])"

text \<open>
  \<open>pad\<close> comes from \<open>share.js\<close>, which is not among the sources: it is a
  parameter. The pushes onto \<open>args\<close> are the successive lists.
\<close>

definition buildErrorMessage ::
  "colors \<Rightarrow> (string \<Rightarrow> string) \<Rightarrow> Failure \<Rightarrow> string list \<Rightarrow> bool \<Rightarrow> string" where
  "buildErrorMessage cs pad err args includeStack =
     (let args1 = (if truthy_string (err_plugin err)
                   then args @ [''  Plugin: '' @ magenta cs (the (err_plugin err))]
                   else args);
          loc = (case err_loc err of
                   Some l \<Rightarrow> '':'' @ show_int (line l) @ '':'' @ show_int (column l)
                 | None \<Rightarrow> []);
          args2 = (if truthy_string (err_id err)
                   then args1 @ [''  File: '' @ cyan cs (the (err_id err)) @ loc]
                   else args1);
          args3 = (if truthy_string (err_frame err)
                   then args2 @ [yellow cs (pad (the (err_frame err)))]
                   else args2);
          args4 = (if includeStack \<and> truthy_string (err_stack err)
                   then args3 @ [pad (cleanStack (the (err_stack err)))]
                   else args3)
      in join [newline] args4)"

section \<open>printServerUrls\<close>

record ResolvedServerUrls =
  local :: "string list"
  network :: "string list"

datatype host_option = HostString string | HostBoolean bool | HostUndefined

definition is_digit :: "char \<Rightarrow> bool" where
  "is_digit c = (c \<in> set ''0123456789'')"

text \<open>
  \<open>url.replace(/:(\d+)\//, (_, port) => `:${f(port)}/`)\<close>: the leftmost colon that
  is followed by digits and a slash; only that match is replaced.
\<close>

fun replace_port :: "(string \<Rightarrow> string) \<Rightarrow> string \<Rightarrow> string" where
  "replace_port f [] = []"
| "replace_port f (c # cs) =
     (if c = CHR '':'' \<and> takeWhile is_digit cs \<noteq> []
         \<and> take 1 (dropWhile is_digit cs) = ''/''
      then '':'' @ f (takeWhile is_digit cs) @ dropWhile is_digit cs
      else c # replace_port f cs)"

definition colorUrl :: "colors \<Rightarrow> string \<Rightarrow> string" where
  "colorUrl cs url = cyan cs (replace_port (bold cs) url)"

text \<open>The arrow U+279C of the source, in UTF-8.\<close>

definition arrow :: string where
  "arrow = [CHR 0xE2, CHR 0x9E, CHR 0x9C]"

definition local_line :: "colors \<Rightarrow> string \<Rightarrow> string" where
  "local_line cs url =
     bold cs (green cs arrow) @ '' '' @ bold cs ''Local'' @ '':   '' @ bold cs (colorUrl cs url)"

definition network_line :: "colors \<Rightarrow> string \<Rightarrow> string" where
  "network_line cs url =
     bold cs (green cs arrow) @ '' '' @ bold cs ''Network'' @ '': '' @ bold cs (colorUrl cs url)"

definition host_hint :: "colors \<Rightarrow> string" where
  "host_hint cs =
     dim cs (''  '' @ green cs arrow @ ''  '' @ bold cs ''Network'' @ '': use '')
       @ bold cs ''--host'' @ dim cs '' to expose''"

text \<open>
  The logger is any implementation of the interface: the function takes its
  \<open>info\<close> method, a transformer of whatever state that implementation has.
\<close>

definition printServerUrls ::
  "colors \<Rightarrow> ResolvedServerUrls \<Rightarrow> host_option \<Rightarrow> (string \<Rightarrow> 'w \<Rightarrow> 'w) \<Rightarrow> 'w \<Rightarrow> 'w" where
  "printServerUrls cs urls optionsHost info w =
     (let w1 = fold (\<lambda>url. info (local_line cs url)) (local urls) w;
          w2 = fold (\<lambda>url. info (network_line cs url)) (network urls) w1
      in if length (network urls) = 0 \<and> optionsHost = HostUndefined
         then info (host_hint cs) w2
         else w2)"

section \<open>Values for the examples\<close>

text \<open>The colour module of a terminal without colours: every transform is the identity.\<close>

definition plain_colors :: colors where
  "plain_colors =
     \<lparr>bold = (\<lambda>s. s), dim = (\<lambda>s. s), green = (\<lambda>s. s), yellow = (\<lambda>s. s), red = (\<lambda>s. s),
      blue = (\<lambda>s. s), magenta = (\<lambda>s. s), cyan = (\<lambda>s. s), debugColor = (\<lambda>s. s),
      brandColor = (\<lambda>s. s)\<rparr>"

definition terminal :: environment where
  "terminal = \<lparr>isTTY = True, CI = False\<rparr>"

text \<open>A \<open>pad\<close> that indents every line by two spaces.\<close>

definition pad2 :: "string \<Rightarrow> string" where
  "pad2 s = join [newline] (map (\<lambda>l. ''  '' @ l) (split_newline s))"

text \<open>A stack of three lines, of which the second is a call frame.\<close>

definition example_stack :: string where
  "example_stack =
     ''Error: x'' @ [newline] @ ''    at foo (a.ts:3:5)'' @ [newline] @ ''other junk''"

text \<open>A frozen error, and a cause.\<close>

definition frozen_error :: js_error where
  "frozen_error = JsError ''Error'' ''boom'' (Some ''at main (index.js:1:1)'') None False False"

definition disk_full :: js_error where
  "disk_full = JsError ''Error'' ''disk full'' None None True True"

text \<open>The logger that \<open>new Logger()\<close> makes on such a terminal.\<close>

definition farm :: Logger where
  "farm =
     \<lparr>options = \<lparr>lo_prefix = Some ''[ Farm ]'', lo_allowClearScreen = None,
                  lo_brandColor = None, lo_exit = Absent, lo_prefix_writable = True\<rparr>,
      canClearScreen = False,
      levelValues = default_levelValues,
      colorMap = default_colorMap plain_colors,
      clear = EmptyFunction\<rparr>"

text \<open>The same logger with a table of ranks in which every rank is \<open>NaN\<close>.\<close>

definition unranked :: Logger where
  "unranked = farm\<lparr>levelValues := (\<lambda>l. NaN)\<rparr>"

text \<open>The logger that \<open>new Logger({exit: true})\<close> makes on such a terminal.\<close>

definition fatal :: Logger where
  "fatal = farm\<lparr>options := (options farm)\<lparr>lo_exit := Given True\<rparr>\<rparr>"

section \<open>What one call of logMessage does\<close>

lemma js_le_self: "js_le x x = (x \<noteq> NaN)"
  by (cases x) simp_all

lemma logMessage_writes:
  "levelValues this level \<noteq> NaN \<Longrightarrow>
   logMessage this level msg color showBanner w =
     console_call (case LOGGER_METHOD level of Some m \<Rightarrow> m | None \<Rightarrow> MLog)
       (colorMap this level (if showBanner then prefix_text this else [])
          @ (case color of Some c \<Rightarrow> c (js_to_string msg) | None \<Rightarrow> js_to_string msg))
       (clear_if_allowed this w)"
  by (simp add: logMessage_def js_le_self Let_def)

lemma logMessage_silent:
  "levelValues this level = NaN \<Longrightarrow> logMessage this level msg color showBanner w = w"
  by (simp add: logMessage_def Let_def)

lemma farm_fields:
  "lo_prefix (options farm) = Some ''[ Farm ]''"
  "lo_exit (options farm) = Absent"
  "canClearScreen farm = False"
  "colorMap farm l s = s"
  "levelValues farm l \<noteq> NaN"
  by (cases l; simp add: farm_def plain_colors_def)+

lemma farm_constructed: "Logger_new plain_colors terminal None None = Inr farm"
  by (simp add: Logger_new_def brandPrefix_def empty_options_def farm_def plain_colors_def
      terminal_def Let_def)

lemma fatal_constructed:
  "Logger_new plain_colors terminal (Some (empty_options\<lparr>lo_exit := Given True\<rparr>)) None = Inr fatal"
  by (simp add: Logger_new_def brandPrefix_def empty_options_def farm_def fatal_def
      plain_colors_def terminal_def Let_def)

lemma unranked_constructed:
  "Logger_new plain_colors terminal None (Some (\<lambda>l. NaN)) = Inr unranked"
  by (simp add: Logger_new_def brandPrefix_def empty_options_def terminal_def farm_def unranked_def
      plain_colors_def Let_def)

lemma Logger_new_fields:
  assumes "Logger_new cs env opts lv = Inr this"
  shows "lo_exit (options this) = (case opts of None \<Rightarrow> Absent | Some os \<Rightarrow> lo_exit os)"
    and "levelValues this = (case lv of None \<Rightarrow> default_levelValues | Some t \<Rightarrow> t)"
  using assms
  by (auto simp: Logger_new_def brandPrefix_def empty_options_def Let_def
      split: if_splits option.splits)

lemma default_levelValues_numbers: "default_levelValues l \<noteq> NaN"
  by (cases l) simp_all

lemma chain_cause_cases:
  "chain_cause None x = Inr x"
  "message_writable x \<Longrightarrow>
     chain_cause (Some c) x =
       Inr (set_message x (message x @ [newline] @ ''Caused by: ''
              @ (case stack c of Some st \<Rightarrow> st | None \<Rightarrow> error_toString c)))"
  "\<not> message_writable x \<Longrightarrow> chain_cause (Some c) x = Inl TypeError"
  by (simp_all add: chain_cause_def newline_def)

lemma wrap_message_cases:
  "wrap_message hs (Str s) = JsError ''Error'' s (Some []) None True True"
  "wrap_message hs (Err x) = x"
  by (simp_all add: wrap_message_def new_Error_def)

lemma Logger_error_result:
  "Logger_error cs hs this msg eo w =
     (case chain_cause (cause_of eo) (wrap_message hs msg) of
        Inl t \<Rightarrow> (Raised t, w)
      | Inr e \<Rightarrow>
          (if truthy (spread (lo_exit (options this))
                        (case eo of None \<Rightarrow> Absent | Some x \<Rightarrow> eo_exit x))
           then Exited 1 else Returned,
           logMessage this Error (Err e) (Some (red cs)) True w))"
  by (simp add: Logger_error_def Let_def split: sum.split)

lemma logMessage_error_line:
  "levelValues this Error \<noteq> NaN \<Longrightarrow>
   logMessage this Error (Err e) (Some (red cs)) True w =
     console_call MError (colorMap this Error (prefix_text this) @ red cs (error_toString e))
       (clear_if_allowed this w)"
  by (simp add: logMessage_writes LOGGER_METHOD_def)

section \<open>The level filter\<close>

text \<open>
  C1. The guard of \<open>logMessage\<close> compares the rank of the level with itself: it holds
  exactly when that rank is not \<open>NaN\<close>. For such a rank \<open>logMessage\<close> writes its line
  (after clearing the screen when the logger may), the same line whatever the other
  ranks are, and so do \<open>trace\<close>, \<open>debug\<close>, \<open>info\<close> and \<open>warn\<close>, and \<open>error\<close>
  whenever it reaches \<open>logMessage\<close>; \<open>error\<close> throws before it when a cause is given
  for an error whose message cannot be written. A logger constructed with the
  default table has no rank \<open>NaN\<close>, whatever its options, so nothing is filtered
  there. For a rank \<open>NaN\<close> the guard fails and \<open>logMessage\<close> writes nothing.
\<close>

theorem logMessage_filters_only_NaN:
  "(js_le (levelValues this level) (levelValues this level) \<longleftrightarrow> levelValues this level \<noteq> NaN)
   \<and> (levelValues this level \<noteq> NaN \<longrightarrow>
        logMessage this level msg color showBanner w =
          console_call (case LOGGER_METHOD level of Some m \<Rightarrow> m | None \<Rightarrow> MLog)
            (colorMap this level (if showBanner then prefix_text this else [])
               @ (case color of Some c \<Rightarrow> c (js_to_string msg) | None \<Rightarrow> js_to_string msg))
            (clear_if_allowed this w))
   \<and> (levelValues this level = NaN \<longrightarrow> logMessage this level msg color showBanner w = w)
   \<and> (levelValues this level \<noteq> NaN \<and> ranks level \<noteq> NaN \<longrightarrow>
        logMessage (this\<lparr>levelValues := ranks\<rparr>) level msg color showBanner w =
          logMessage this level msg color showBanner w)
   \<and> (levelValues this Trace \<noteq> NaN \<longrightarrow>
        Logger_trace cs this s w =
          console_call MLog (colorMap this Trace (prefix_text this) @ magenta cs s)
            (clear_if_allowed this w))
   \<and> (levelValues this Debug \<noteq> NaN \<longrightarrow>
        Logger_debug cs this s w =
          console_call MLog (colorMap this Debug (prefix_text this) @ blue cs s)
            (clear_if_allowed this w))
   \<and> (levelValues this Info \<noteq> NaN \<longrightarrow>
        Logger_info cs this s w =
          console_call MLog (colorMap this Info (prefix_text this) @ s)
            (clear_if_allowed this w))
   \<and> (levelValues this Warn \<noteq> NaN \<longrightarrow>
        Logger_warn cs this s w =
          console_call MWarn (colorMap this Warn (prefix_text this) @ yellow cs s)
            (clear_if_allowed this w))
   \<and> (levelValues this Error \<noteq> NaN
        \<and> chain_cause (cause_of eo) (wrap_message hs m) = Inr e \<longrightarrow>
        snd (Logger_error cs hs this m eo w) =
          console_call MError (colorMap this Error (prefix_text this) @ red cs (error_toString e))
            (clear_if_allowed this w))
   \<and> (chain_cause (cause_of eo) (wrap_message hs m) = Inl t \<longrightarrow>
        Logger_error cs hs this m eo w = (Raised t, w))
   \<and> (Logger_new cs env opts None = Inr this \<longrightarrow> levelValues this level \<noteq> NaN)"
proof -
  have guard: "js_le (levelValues this level) (levelValues this level)
      \<longleftrightarrow> levelValues this level \<noteq> NaN"
    by (rule js_le_self)
  have ranks: "logMessage (this\<lparr>levelValues := ranks\<rparr>) level msg color showBanner w =
      logMessage this level msg color showBanner w"
    if "levelValues this level \<noteq> NaN" "ranks level \<noteq> NaN"
    using that by (simp add: logMessage_writes prefix_text_def clear_if_allowed_def)
  have trace: "Logger_trace cs this s w =
      console_call MLog (colorMap this Trace (prefix_text this) @ magenta cs s)
        (clear_if_allowed this w)" if "levelValues this Trace \<noteq> NaN"
    using that by (simp add: Logger_trace_def logMessage_writes LOGGER_METHOD_def)
  have debug: "Logger_debug cs this s w =
      console_call MLog (colorMap this Debug (prefix_text this) @ blue cs s)
        (clear_if_allowed this w)" if "levelValues this Debug \<noteq> NaN"
    using that by (simp add: Logger_debug_def logMessage_writes LOGGER_METHOD_def)
  have info: "Logger_info cs this s w =
      console_call MLog (colorMap this Info (prefix_text this) @ s)
        (clear_if_allowed this w)" if "levelValues this Info \<noteq> NaN"
    using that by (simp add: Logger_info_def logMessage_writes LOGGER_METHOD_def)
  have warn: "Logger_warn cs this s w =
      console_call MWarn (colorMap this Warn (prefix_text this) @ yellow cs s)
        (clear_if_allowed this w)" if "levelValues this Warn \<noteq> NaN"
    using that by (simp add: Logger_warn_def logMessage_writes LOGGER_METHOD_def)
  have error: "snd (Logger_error cs hs this m eo w) =
      console_call MError (colorMap this Error (prefix_text this) @ red cs (error_toString e))
        (clear_if_allowed this w)"
    if "levelValues this Error \<noteq> NaN" "chain_cause (cause_of eo) (wrap_message hs m) = Inr e"
    using that by (simp add: Logger_error_result logMessage_error_line)
  have thrown: "Logger_error cs hs this m eo w = (Raised t, w)"
    if "chain_cause (cause_of eo) (wrap_message hs m) = Inl t"
    using that by (simp add: Logger_error_result)
  have default: "levelValues this level \<noteq> NaN" if "Logger_new cs env opts None = Inr this"
    using Logger_new_fields(2) [OF that] by (simp add: default_levelValues_numbers)
  from guard ranks trace debug info warn error thrown default show ?thesis
    using logMessage_writes [of this level msg color showBanner w]
      logMessage_silent [of this level msg color showBanner w]
    by blast
qed

theorem logMessage_filters_only_NaN_witness:
  "Logger_new plain_colors terminal None None = Inr farm
   \<and> levelValues farm Trace \<noteq> NaN
   \<and> console (Logger_trace plain_colors farm ''resolving'' initial_world)
       = [Console MLog ''[ Farm ] resolving'']
   \<and> levelValues farm Warn \<noteq> NaN
   \<and> console (Logger_warn plain_colors farm ''deprecated'' initial_world)
       = [Console MWarn ''[ Farm ] deprecated'']
   \<and> levelValues farm Error \<noteq> NaN
   \<and> console (snd (Logger_error plain_colors ''stk'' farm (Str ''boom'') None initial_world))
       = [Console MError ''[ Farm ] Error: boom'']
   \<and> Logger_error plain_colors ''stk'' farm (Err frozen_error)
        (Some \<lparr>eo_exit = Absent, eo_e = Some disk_full, eo_error = None\<rparr>) initial_world
       = (Raised TypeError, initial_world)
   \<and> levelValues unranked Warn = NaN
   \<and> logMessage unranked Warn (Str ''deprecated'') None True initial_world = initial_world"
proof -
  let ?boom = "JsError ''Error'' ''boom'' (Some []) None True True"
  let ?caused = "Some \<lparr>eo_exit = Absent, eo_e = Some disk_full, eo_error = None\<rparr>"
  have constructed: "Logger_new plain_colors terminal None None = Inr farm"
    by (rule farm_constructed)
  have trace_rank: "levelValues farm Trace \<noteq> NaN"
    using constructed logMessage_filters_only_NaN
      [where this = farm and cs = plain_colors and w = initial_world and level = Trace
         and ranks = "levelValues farm" and msg = "Str ''deprecated''" and color = None
         and showBanner = True and hs = "''stk''" and m = "Str ''boom''" and eo = None
         and e = ?boom and t = TypeError and env = terminal and opts = None
         and s = "''resolving''"]
    by blast
  have warn_rank: "levelValues farm Warn \<noteq> NaN"
    using constructed logMessage_filters_only_NaN
      [where this = farm and cs = plain_colors and w = initial_world and level = Warn
         and ranks = "levelValues farm" and msg = "Str ''deprecated''" and color = None
         and showBanner = True and hs = "''stk''" and m = "Str ''boom''" and eo = None
         and e = ?boom and t = TypeError and env = terminal and opts = None
         and s = "''deprecated''"]
    by blast
  have error_rank: "levelValues farm Error \<noteq> NaN"
    using constructed logMessage_filters_only_NaN
      [where this = farm and cs = plain_colors and w = initial_world and level = Error
         and ranks = "levelValues farm" and msg = "Str ''deprecated''" and color = None
         and showBanner = True and hs = "''stk''" and m = "Str ''boom''" and eo = None
         and e = ?boom and t = TypeError and env = terminal and opts = None
         and s = "''deprecated''"]
    by blast
  note filter = logMessage_filters_only_NaN
    [where this = farm and cs = plain_colors and w = initial_world and level = Warn
       and ranks = "levelValues farm" and msg = "Str ''deprecated''" and color = None
       and showBanner = True and hs = "''stk''" and m = "Str ''boom''" and eo = None
       and e = ?boom and t = TypeError and env = terminal and opts = None]
  have line: "console (console_call via (colorMap farm level (prefix_text farm) @ body)
        (clear_if_allowed farm initial_world))
      = [Console via (''[ Farm ] '' @ body)]" for via level body
    by (simp add: farm_fields initial_world_def console_call_def prefix_text_def
        clear_if_allowed_def)
  from filter [where s = "''resolving''"] trace_rank
  have "Logger_trace plain_colors farm ''resolving'' initial_world =
          console_call MLog (colorMap farm Trace (prefix_text farm) @ magenta plain_colors ''resolving'')
            (clear_if_allowed farm initial_world)"
    by blast
  then have trace: "console (Logger_trace plain_colors farm ''resolving'' initial_world)
       = [Console MLog ''[ Farm ] resolving'']"
    by (simp add: line plain_colors_def)
  from filter [where s = "''deprecated''"] warn_rank
  have "Logger_warn plain_colors farm ''deprecated'' initial_world =
          console_call MWarn (colorMap farm Warn (prefix_text farm) @ yellow plain_colors ''deprecated'')
            (clear_if_allowed farm initial_world)"
    by blast
  then have warn: "console (Logger_warn plain_colors farm ''deprecated'' initial_world)
       = [Console MWarn ''[ Farm ] deprecated'']"
    by (simp add: line plain_colors_def)
  have prepared: "chain_cause (cause_of None) (wrap_message ''stk'' (Str ''boom'')) = Inr ?boom"
    by (simp add: chain_cause_cases wrap_message_cases cause_of_def)
  from filter [where s = "''deprecated''"] error_rank prepared
  have "snd (Logger_error plain_colors ''stk'' farm (Str ''boom'') None initial_world) =
          console_call MError
            (colorMap farm Error (prefix_text farm) @ red plain_colors (error_toString ?boom))
            (clear_if_allowed farm initial_world)"
    by blast
  then have error: "console (snd (Logger_error plain_colors ''stk'' farm (Str ''boom'') None
        initial_world)) = [Console MError ''[ Farm ] Error: boom'']"
    by (simp add: line plain_colors_def error_toString_def)
  have refused: "chain_cause (cause_of ?caused) (wrap_message ''stk'' (Err frozen_error))
      = Inl TypeError"
    by (simp add: chain_cause_cases wrap_message_cases cause_of_def frozen_error_def)
  then have thrown: "Logger_error plain_colors ''stk'' farm (Err frozen_error) ?caused initial_world
       = (Raised TypeError, initial_world)"
    using logMessage_filters_only_NaN
      [where this = farm and cs = plain_colors and w = initial_world and level = Error
         and ranks = "levelValues farm" and msg = "Str ''deprecated''" and color = None
         and showBanner = True and hs = "''stk''" and m = "Err frozen_error" and eo = ?caused
         and e = ?boom and t = TypeError and env = terminal and opts = None
         and s = "''deprecated''"]
    by blast
  have unranked: "levelValues unranked Warn = NaN"
    by (simp add: unranked_def)
  then have silent: "logMessage unranked Warn (Str ''deprecated'') None True initial_world
      = initial_world"
    using logMessage_filters_only_NaN
      [where this = unranked and level = Warn and msg = "Str ''deprecated''" and color = None
         and showBanner = True and w = initial_world and ranks = "levelValues unranked"
         and cs = plain_colors and s = "''deprecated''" and hs = "''stk''" and m = "Str ''boom''"
         and eo = None and e = disk_full and t = TypeError and env = terminal and opts = None]
    by blast
  from constructed trace_rank trace warn_rank warn error_rank error thrown unranked silent
  show ?thesis
    by blast
qed

text \<open>
  The constructor takes the table of ranks from its caller. With a table of \<open>NaN\<close>
  ranks, \<open>trace\<close>, \<open>warn\<close> and \<open>error\<close> return and the console is as it was. With
  the default table, \<open>error\<close> on a frozen error and a cause throws and the console is
  as it was.
\<close>

theorem logMessage_NaN_counterexample:
  "Logger_new plain_colors terminal None (Some (\<lambda>l. NaN)) = Inr unranked
   \<and> \<not> js_le (levelValues unranked Trace) (levelValues unranked Trace)
   \<and> Logger_trace plain_colors unranked ''resolving'' initial_world = initial_world
   \<and> Logger_warn plain_colors unranked ''deprecated'' initial_world = initial_world
   \<and> Logger_error plain_colors ''stk'' unranked (Str ''boom'') None initial_world
       = (Returned, initial_world)
   \<and> Logger_error plain_colors ''stk'' farm (Err frozen_error)
        (Some \<lparr>eo_exit = Absent, eo_e = Some disk_full, eo_error = None\<rparr>) initial_world
       = (Raised TypeError, initial_world)"
  by (simp add: unranked_constructed)
    (simp add: unranked_def Logger_trace_def Logger_warn_def logMessage_silent
      Logger_error_result chain_cause_cases wrap_message_cases cause_of_def frozen_error_def
      farm_def)

section \<open>Fatal errors\<close>

text \<open>
  C2. On the standard logger, \<open>error\<close> with \<open>exit: true\<close> never returns. When the
  message is a string, when no cause is given, or when the message of the error can be
  written, it calls \<open>logMessage\<close> with the error, which writes the error line when the
  rank of \<open>error\<close> is not \<open>NaN\<close>, and then ends the process with status 1. When a
  cause is given for an error whose message cannot be written, it throws a
  \<open>TypeError\<close> and neither writes nor exits. On the no-op logger the same call writes
  nothing and does not exit: it throws the error (the message itself if it is an
  error, a new error otherwise), whose \<open>cause\<close> is the supplied cause when one was
  given under either field name, or a \<open>TypeError\<close> when the cause of the error
  cannot be written.
\<close>

theorem error_exit_true:
  "Logger_error cs hs this (Str s)
      (Some \<lparr>eo_exit = Given True, eo_e = c1, eo_error = c2\<rparr>) w =
     (case chain_cause (case c1 of Some c \<Rightarrow> Some c | None \<Rightarrow> c2)
             (JsError ''Error'' s (Some []) None True True) of
        Inr e \<Rightarrow> (Exited 1, logMessage this Error (Err e) (Some (red cs)) True w)
      | Inl t \<Rightarrow> (Raised t, w))
   \<and> chain_cause cz (JsError ''Error'' s (Some []) None True True) \<noteq> Inl t
   \<and> Logger_error cs hs this (Err x)
        (Some \<lparr>eo_exit = Given True, eo_e = None, eo_error = None\<rparr>) w =
       (Exited 1, logMessage this Error (Err x) (Some (red cs)) True w)
   \<and> (message_writable x \<longrightarrow>
        Logger_error cs hs this (Err x)
          (Some \<lparr>eo_exit = Given True, eo_e = Some c, eo_error = c2\<rparr>) w =
          (Exited 1,
           logMessage this Error
             (Err (set_message x (message x @ [newline] @ ''Caused by: ''
                     @ (case stack c of Some st \<Rightarrow> st | None \<Rightarrow> error_toString c))))
             (Some (red cs)) True w)
        \<and> Logger_error cs hs this (Err x)
          (Some \<lparr>eo_exit = Given True, eo_e = None, eo_error = Some c\<rparr>) w =
          (Exited 1,
           logMessage this Error
             (Err (set_message x (message x @ [newline] @ ''Caused by: ''
                     @ (case stack c of Some st \<Rightarrow> st | None \<Rightarrow> error_toString c))))
             (Some (red cs)) True w))
   \<and> (\<not> message_writable x \<longrightarrow>
        Logger_error cs hs this (Err x)
          (Some \<lparr>eo_exit = Given True, eo_e = Some c, eo_error = c2\<rparr>) w = (Raised TypeError, w)
        \<and> Logger_error cs hs this (Err x)
          (Some \<lparr>eo_exit = Given True, eo_e = None, eo_error = Some c\<rparr>) w = (Raised TypeError, w))
   \<and> (levelValues this Error \<noteq> NaN \<longrightarrow>
        logMessage this Error (Err e) (Some (red cs)) True w =
          console_call MError (colorMap this Error (prefix_text this) @ red cs (error_toString e))
            (clear_if_allowed this w))
   \<and> fst (Logger_error cs hs this msg
        (Some \<lparr>eo_exit = Given True, eo_e = c1, eo_error = c2\<rparr>) w) \<noteq> Returned
   \<and> NoopLogger_error hs this (Str s)
        (Some \<lparr>eo_exit = Given True, eo_e = Some c, eo_error = c2\<rparr>) w =
       (Raised (Thrown (set_cause (new_Error hs s) c)), w)
   \<and> NoopLogger_error hs this (Str s)
        (Some \<lparr>eo_exit = Given True, eo_e = None, eo_error = Some c\<rparr>) w =
       (Raised (Thrown (set_cause (new_Error hs s) c)), w)
   \<and> NoopLogger_error hs this (Err x)
        (Some \<lparr>eo_exit = Given True, eo_e = Some c, eo_error = c2\<rparr>) w =
       (if cause_writable x then Raised (Thrown (set_cause x c)) else Raised TypeError, w)
   \<and> NoopLogger_error hs this (Err x)
        (Some \<lparr>eo_exit = Given True, eo_e = None, eo_error = Some c\<rparr>) w =
       (if cause_writable x then Raised (Thrown (set_cause x c)) else Raised TypeError, w)
   \<and> NoopLogger_error hs this msg
        (Some \<lparr>eo_exit = Given True, eo_e = None, eo_error = None\<rparr>) w =
       (Raised (Thrown (case msg of Err x \<Rightarrow> x | Str s \<Rightarrow> new_Error hs s)), w)
   \<and> cause (set_cause y c) = Some c"
proof -
  let ?eo = "\<lparr>eo_exit = Given True, eo_e = c1, eo_error = c2\<rparr>"
  let ?suffix = "(case stack c of Some st \<Rightarrow> st | None \<Rightarrow> error_toString c)"
  have cause: "cause_of (Some \<lparr>eo_exit = b, eo_e = da, eo_error = db\<rparr>)
      = (case da of Some c \<Rightarrow> Some c | None \<Rightarrow> db)" for b da db
    by (simp add: cause_of_def split: option.split)
  have of_string: "Logger_error cs hs this (Str s) (Some ?eo) w =
     (case chain_cause (case c1 of Some c \<Rightarrow> Some c | None \<Rightarrow> c2)
             (JsError ''Error'' s (Some []) None True True) of
        Inr e \<Rightarrow> (Exited 1, logMessage this Error (Err e) (Some (red cs)) True w)
      | Inl t \<Rightarrow> (Raised t, w))"
    by (simp add: Logger_error_result cause wrap_message_cases split: sum.split)
  have writable: "chain_cause cz (JsError ''Error'' s (Some []) None True True) \<noteq> Inl t"
    by (cases cz) (simp_all add: chain_cause_cases)
  have no_cause: "Logger_error cs hs this (Err x)
        (Some \<lparr>eo_exit = Given True, eo_e = None, eo_error = None\<rparr>) w =
       (Exited 1, logMessage this Error (Err x) (Some (red cs)) True w)"
    by (simp add: Logger_error_result cause wrap_message_cases chain_cause_cases)
  have chained: "Logger_error cs hs this (Err x)
          (Some \<lparr>eo_exit = Given True, eo_e = da, eo_error = db\<rparr>) w =
          (Exited 1,
           logMessage this Error
             (Err (set_message x (message x @ [newline] @ ''Caused by: '' @ ?suffix)))
             (Some (red cs)) True w)"
    if "message_writable x" "(case da of Some c \<Rightarrow> Some c | None \<Rightarrow> db) = Some c" for da db
    using that by (simp add: Logger_error_result cause wrap_message_cases chain_cause_cases)
  have refused: "Logger_error cs hs this (Err x)
          (Some \<lparr>eo_exit = Given True, eo_e = da, eo_error = db\<rparr>) w = (Raised TypeError, w)"
    if "\<not> message_writable x" "(case da of Some c \<Rightarrow> Some c | None \<Rightarrow> db) = Some c" for da db
    using that by (simp add: Logger_error_result cause wrap_message_cases chain_cause_cases)
  have never: "fst (Logger_error cs hs this msg (Some ?eo) w) \<noteq> Returned"
    by (simp add: Logger_error_result split: sum.split)
  have noop_string: "NoopLogger_error hs this (Str s)
        (Some \<lparr>eo_exit = Given True, eo_e = da, eo_error = db\<rparr>) w =
       (Raised (Thrown (set_cause (new_Error hs s) c)), w)"
    if "(case da of Some c \<Rightarrow> Some c | None \<Rightarrow> db) = Some c" for da db
    using that by (simp add: NoopLogger_error_def cause new_Error_def)
  have noop_error: "NoopLogger_error hs this (Err x)
        (Some \<lparr>eo_exit = Given True, eo_e = da, eo_error = db\<rparr>) w =
       (if cause_writable x then Raised (Thrown (set_cause x c)) else Raised TypeError, w)"
    if "(case da of Some c \<Rightarrow> Some c | None \<Rightarrow> db) = Some c" for da db
    using that by (simp add: NoopLogger_error_def cause)
  have noop_plain: "NoopLogger_error hs this msg
        (Some \<lparr>eo_exit = Given True, eo_e = None, eo_error = None\<rparr>) w =
       (Raised (Thrown (case msg of Err x \<Rightarrow> x | Str s \<Rightarrow> new_Error hs s)), w)"
    by (simp add: NoopLogger_error_def cause)
  have field: "cause (set_cause y c) = Some c"
    by (cases y) simp
  show ?thesis
    using of_string writable no_cause
      chained [where da = "Some c" and db = c2] chained [where da = None and db = "Some c"]
      refused [where da = "Some c" and db = c2] refused [where da = None and db = "Some c"]
      logMessage_error_line [of this e cs w] never
      noop_string [where da = "Some c" and db = c2] noop_string [where da = None and db = "Some c"]
      noop_error [where da = "Some c" and db = c2] noop_error [where da = None and db = "Some c"] noop_plain field
    by simp
qed

theorem error_exit_true_witness:
  "Logger_error plain_colors ''stk'' farm (Str ''boom'')
      (Some \<lparr>eo_exit = Given True, eo_e = None, eo_error = None\<rparr>) initial_world =
     (Exited 1, initial_world\<lparr>console := [Console MError ''[ Farm ] Error: boom'']\<rparr>)
   \<and> message_writable disk_full
   \<and> Logger_error plain_colors ''stk'' farm (Err disk_full)
        (Some \<lparr>eo_exit = Given True, eo_e = Some disk_full, eo_error = None\<rparr>) initial_world =
       (Exited 1,
        initial_world\<lparr>console :=
          [Console MError (''[ Farm ] Error: disk full'' @ [newline]
             @ ''Caused by: Error: disk full'')]\<rparr>)
   \<and> \<not> message_writable frozen_error
   \<and> Logger_error plain_colors ''stk'' farm (Err frozen_error)
        (Some \<lparr>eo_exit = Given True, eo_e = Some disk_full, eo_error = None\<rparr>) initial_world =
       (Raised TypeError, initial_world)
   \<and> NoopLogger_error ''stk'' farm (Str ''boom'')
        (Some \<lparr>eo_exit = Given True, eo_e = None, eo_error = Some disk_full\<rparr>) initial_world =
       (Raised (Thrown (JsError ''Error'' ''boom'' (Some ''stk'') (Some disk_full) True True)),
        initial_world)"
proof -
  have rank: "levelValues farm Error \<noteq> NaN"
    by (rule farm_fields)
  have writable: "message_writable disk_full"
    by (simp add: disk_full_def)
  have frozen: "\<not> message_writable frozen_error"
    by (simp add: frozen_error_def)
  note plain = error_exit_true
    [where cs = plain_colors and hs = "''stk''" and this = farm and s = "''boom''"
       and ?c1.0 = None and ?c2.0 = None and w = initial_world and c = disk_full
       and x = disk_full and cz = None and t = TypeError and msg = "Str ''boom''"
       and y = disk_full and e = "JsError ''Error'' ''boom'' (Some []) None True True"]
  note chained = error_exit_true
    [where cs = plain_colors and hs = "''stk''" and this = farm and s = "''boom''"
       and ?c1.0 = None and ?c2.0 = None and w = initial_world and c = disk_full
       and x = disk_full and cz = None and t = TypeError and msg = "Str ''boom''"
       and y = disk_full
       and e = "set_message disk_full (message disk_full @ [newline] @ ''Caused by: ''
                  @ (case stack disk_full of Some st \<Rightarrow> st | None \<Rightarrow> error_toString disk_full))"]
  note refused = error_exit_true
    [where cs = plain_colors and hs = "''stk''" and this = farm and s = "''boom''"
       and ?c1.0 = None and ?c2.0 = None and w = initial_world and c = disk_full
       and x = frozen_error and cz = None and t = TypeError and msg = "Str ''boom''"
       and y = disk_full and e = disk_full]
  have line: "console_call MError (colorMap farm Error (prefix_text farm) @ red plain_colors body)
      (clear_if_allowed farm initial_world)
      = initial_world\<lparr>console := [Console MError (''[ Farm ] '' @ body)]\<rparr>" for body
    by (simp add: farm_fields plain_colors_def initial_world_def console_call_def
        prefix_text_def clear_if_allowed_def)
  from plain rank have of_string: "Logger_error plain_colors ''stk'' farm (Str ''boom'')
      (Some \<lparr>eo_exit = Given True, eo_e = None, eo_error = None\<rparr>) initial_world =
     (Exited 1, initial_world\<lparr>console := [Console MError ''[ Farm ] Error: boom'']\<rparr>)"
    by (simp add: chain_cause_cases line error_toString_def)
  from chained rank writable have of_error: "Logger_error plain_colors ''stk'' farm (Err disk_full)
        (Some \<lparr>eo_exit = Given True, eo_e = Some disk_full, eo_error = None\<rparr>) initial_world =
       (Exited 1,
        initial_world\<lparr>console :=
          [Console MError (''[ Farm ] Error: disk full'' @ [newline]
             @ ''Caused by: Error: disk full'')]\<rparr>)"
    by (simp add: line error_toString_def disk_full_def)
  from refused frozen have thrown: "Logger_error plain_colors ''stk'' farm (Err frozen_error)
        (Some \<lparr>eo_exit = Given True, eo_e = Some disk_full, eo_error = None\<rparr>) initial_world =
       (Raised TypeError, initial_world)"
    by blast
  from plain have noop: "NoopLogger_error ''stk'' farm (Str ''boom'')
        (Some \<lparr>eo_exit = Given True, eo_e = None, eo_error = Some disk_full\<rparr>) initial_world =
       (Raised (Thrown (JsError ''Error'' ''boom'' (Some ''stk'') (Some disk_full) True True)),
        initial_world)"
    by (simp add: new_Error_def)
  from of_string writable of_error frozen thrown noop show ?thesis
    by blast
qed

text \<open>
  With \<open>exit: true\<close>, a frozen error and a cause, the standard logger throws a
  \<open>TypeError\<close>: it writes nothing and does not exit; the no-op logger throws a
  \<open>TypeError\<close> too, not the error. With a table of \<open>NaN\<close> ranks the standard logger
  exits and has written nothing.
\<close>

theorem error_exit_true_counterexample:
  "Logger_error plain_colors ''stk'' farm (Err frozen_error)
      (Some \<lparr>eo_exit = Given True, eo_e = Some disk_full, eo_error = None\<rparr>) initial_world
     = (Raised TypeError, initial_world)
   \<and> NoopLogger_error ''stk'' farm (Err frozen_error)
      (Some \<lparr>eo_exit = Given True, eo_e = Some disk_full, eo_error = None\<rparr>) initial_world
     = (Raised TypeError, initial_world)
   \<and> Logger_error plain_colors ''stk'' unranked (Str ''boom'')
      (Some \<lparr>eo_exit = Given True, eo_e = None, eo_error = None\<rparr>) initial_world
     = (Exited 1, initial_world)"
  by (simp add: Logger_error_result chain_cause_cases wrap_message_cases cause_of_def
      frozen_error_def NoopLogger_error_def logMessage_silent unranked_def)

section \<open>Calls that are not fatal\<close>

text \<open>
  C5. On the no-op logger the level methods and the once-only methods change nothing,
  and \<open>error\<close> with options whose \<open>exit\<close> is absent, undefined or false changes
  nothing and returns. But \<open>error\<close> called on the no-op logger without the options
  argument reads \<open>exit\<close> from \<open>undefined\<close> and throws a \<open>TypeError\<close>, where the claim
  says the call has no effect and does not raise. On the standard logger a call
  returns, or ends the process when an exit was asked for; the one call that throws
  is \<open>error\<close> with a cause for an error whose message cannot be written.
\<close>

theorem NoopLogger_error_without_options:
  "NoopLogger_error hs this msg None w = (Raised TypeError, w)
   \<and> invoke cs hs (Noop this) (CallError m None) w = (Raised TypeError, w)
   \<and> NoopLogger_error hs this msg (Some \<lparr>eo_exit = Absent, eo_e = c1, eo_error = c2\<rparr>) w
       = (Returned, w)
   \<and> NoopLogger_error hs this msg (Some \<lparr>eo_exit = Undefined, eo_e = c1, eo_error = c2\<rparr>) w
       = (Returned, w)
   \<and> NoopLogger_error hs this msg (Some \<lparr>eo_exit = Given False, eo_e = c1, eo_error = c2\<rparr>) w
       = (Returned, w)
   \<and> NoopLogger_trace this s w = w
   \<and> NoopLogger_debug this s w = w
   \<and> NoopLogger_info this s w = w
   \<and> NoopLogger_warn this s w = w
   \<and> NoopLogger_infoOnce this s w = w
   \<and> NoopLogger_warnOnce this s w = w
   \<and> NoopLogger_errorOnce this m w = w
   \<and> (fst (invoke cs hs (Standard this) c w) = Raised t \<longleftrightarrow>
        t = TypeError
        \<and> (\<exists>r x eo ca. c = CallError (Object r x) eo \<and> cause_of eo = Some ca
              \<and> \<not> message_writable x))"
proof -
  have raise: "NoopLogger_error hs this msg None w = (Raised TypeError, w)"
    by (simp add: NoopLogger_error_def)
  have raise': "invoke cs hs (Noop this) (CallError m None) w = (Raised TypeError, w)"
    by (simp add: NoopLogger_error_def)
  have quiet: "NoopLogger_error hs this msg (Some \<lparr>eo_exit = x, eo_e = c1, eo_error = c2\<rparr>) w
       = (Returned, w)" if "x \<noteq> Given True" for x
    using that by (cases x) (simp_all add: NoopLogger_error_def)
  have error: "fst (Logger_error cs hs this v eo w) = Raised t \<longleftrightarrow>
      t = TypeError \<and> (\<exists>x ca. v = Err x \<and> cause_of eo = Some ca \<and> \<not> message_writable x)"
    for v eo w
  proof (cases v)
    case (Str s)
    then show ?thesis
      by (cases "cause_of eo")
         (simp_all add: Logger_error_result wrap_message_cases chain_cause_cases)
  next
    case (Err x)
    then show ?thesis
      by (cases "cause_of eo"; cases "message_writable x")
         (auto simp: Logger_error_result wrap_message_cases chain_cause_cases)
  qed
  have std: "fst (invoke cs hs (Standard this) c w) = Raised t \<longleftrightarrow>
        t = TypeError
        \<and> (\<exists>r x eo ca. c = CallError (Object r x) eo \<and> cause_of eo = Some ca
              \<and> \<not> message_writable x)"
  proof (cases c)
    case (CallError a eo)
    then show ?thesis
      by (cases a) (auto simp: error)
  next
    case (CallErrorOnce a)
    then show ?thesis
      by (simp add: Logger_errorOnce_def error cause_of_def)
  qed simp_all
  show ?thesis
    using raise raise' quiet [of Absent] quiet [of Undefined] quiet [of "Given False"] std
    by (simp add: NoopLogger_trace_def NoopLogger_debug_def NoopLogger_info_def
        NoopLogger_warn_def NoopLogger_infoOnce_def NoopLogger_warnOnce_def
        NoopLogger_errorOnce_def)
qed

theorem NoopLogger_error_without_options_witness:
  "NoopLogger_error ''stk'' farm (Str ''boom'') None initial_world
     = (Raised TypeError, initial_world)"
  using NoopLogger_error_without_options
    [where hs = "''stk''" and this = farm and msg = "Str ''boom''" and w = initial_world]
  by simp

section \<open>The error that is reported\<close>





section \<open>The exit option of the constructor and of the call\<close>

text \<open>
  C10. \<open>Logger.error\<close> spreads the options of the call over those of the
  constructor, once the error has been prepared: a call that throws in the
  preparation (a cause given for an error whose message cannot be written) never
  comes to the decision. The constructor keeps the \<open>exit\<close> option it is given. For
  a logger constructed with \<open>exit: true\<close>, a call that does not throw and has no
  options, or options without an \<open>exit\<close> field, ends the process with status 1, and
  so does \<open>errorOnce\<close> on a new message; a call that does not throw and has
  \<open>exit: false\<close> returns. (So does one whose \<open>exit\<close> field is present and
  undefined.) A call on a string, and a call without a cause, never throws.
\<close>

theorem error_exit_merged:
  "(Logger_new cs env (Some os) lv = Inr this \<longrightarrow> lo_exit (options this) = lo_exit os)
   \<and> (lo_exit (options this) = Given True \<longrightarrow>
        fst (Logger_error cs hs this msg None w) = Exited 1
        \<and> fst (Logger_error cs hs this (Str s)
              (Some \<lparr>eo_exit = Absent, eo_e = c1, eo_error = c2\<rparr>) w) = Exited 1
        \<and> fst (Logger_error cs hs this (Err x)
              (Some \<lparr>eo_exit = Absent, eo_e = c1, eo_error = c2\<rparr>) w) =
            (if (c1 \<noteq> None \<or> c2 \<noteq> None) \<and> \<not> message_writable x then Raised TypeError
             else Exited 1)
        \<and> fst (Logger_error cs hs this msg
              (Some \<lparr>eo_exit = Given False, eo_e = None, eo_error = None\<rparr>) w) = Returned
        \<and> fst (Logger_error cs hs this (Str s)
              (Some \<lparr>eo_exit = Given False, eo_e = c1, eo_error = c2\<rparr>) w) = Returned
        \<and> fst (Logger_error cs hs this (Err x)
              (Some \<lparr>eo_exit = Given False, eo_e = c1, eo_error = c2\<rparr>) w) =
            (if (c1 \<noteq> None \<or> c2 \<noteq> None) \<and> \<not> message_writable x then Raised TypeError
             else Returned)
        \<and> fst (Logger_error cs hs this (Str s)
              (Some \<lparr>eo_exit = Undefined, eo_e = c1, eo_error = c2\<rparr>) w) = Returned
        \<and> fst (Logger_errorOnce cs hs this m (w\<lparr>errorOnceMessages := {}\<rparr>)) = Exited 1)
   \<and> fst (Logger_error cs hs this msg eo w) =
       (case chain_cause (cause_of eo) (wrap_message hs msg) of
          Inl t \<Rightarrow> Raised t
        | Inr e \<Rightarrow>
            if truthy (spread (lo_exit (options this))
                         (case eo of None \<Rightarrow> Absent | Some x \<Rightarrow> eo_exit x))
            then Exited 1 else Returned)"
proof -
  have kept: "lo_exit (options this) = lo_exit os" if "Logger_new cs env (Some os) lv = Inr this"
    using Logger_new_fields(1) [OF that] by simp
  have general: "fst (Logger_error cs hs this v eo w) =
       (case chain_cause (cause_of eo) (wrap_message hs v) of
          Inl t \<Rightarrow> Raised t
        | Inr e \<Rightarrow>
            if truthy (spread (lo_exit (options this))
                         (case eo of None \<Rightarrow> Absent | Some x \<Rightarrow> eo_exit x))
            then Exited 1 else Returned)" for v eo w
    by (simp add: Logger_error_result split: sum.split)
  have cause: "cause_of (Some \<lparr>eo_exit = b, eo_e = da, eo_error = db\<rparr>)
      = (case da of Some c \<Rightarrow> Some c | None \<Rightarrow> db)" for b da db
    by (simp add: cause_of_def split: option.split)
  have of_string: "fst (Logger_error cs hs this (Str s)
        (Some \<lparr>eo_exit = b, eo_e = c1, eo_error = c2\<rparr>) w) =
      (if truthy (spread (lo_exit (options this)) b) then Exited 1 else Returned)" for b
    by (cases "case c1 of Some c \<Rightarrow> Some c | None \<Rightarrow> c2")
       (simp_all add: general cause chain_cause_cases wrap_message_cases)
  have of_error: "fst (Logger_error cs hs this (Err x)
        (Some \<lparr>eo_exit = b, eo_e = c1, eo_error = c2\<rparr>) w) =
      (if (c1 \<noteq> None \<or> c2 \<noteq> None) \<and> \<not> message_writable x then Raised TypeError
       else if truthy (spread (lo_exit (options this)) b) then Exited 1 else Returned)" for b
    by (cases c1; cases c2; cases "message_writable x")
       (simp_all add: general cause chain_cause_cases wrap_message_cases)
  have plain: "fst (Logger_error cs hs this v eo w) =
      (if truthy (spread (lo_exit (options this))
                    (case eo of None \<Rightarrow> Absent | Some x \<Rightarrow> eo_exit x))
       then Exited 1 else Returned)" if "cause_of eo = None" for v eo w
    by (simp add: general that chain_cause_cases)
  have fatal_cases:
    "fst (Logger_error cs hs this msg None w) = Exited 1
     \<and> fst (Logger_error cs hs this (Str s)
           (Some \<lparr>eo_exit = Absent, eo_e = c1, eo_error = c2\<rparr>) w) = Exited 1
     \<and> fst (Logger_error cs hs this (Err x)
           (Some \<lparr>eo_exit = Absent, eo_e = c1, eo_error = c2\<rparr>) w) =
         (if (c1 \<noteq> None \<or> c2 \<noteq> None) \<and> \<not> message_writable x then Raised TypeError
          else Exited 1)
     \<and> fst (Logger_error cs hs this msg
           (Some \<lparr>eo_exit = Given False, eo_e = None, eo_error = None\<rparr>) w) = Returned
     \<and> fst (Logger_error cs hs this (Str s)
           (Some \<lparr>eo_exit = Given False, eo_e = c1, eo_error = c2\<rparr>) w) = Returned
     \<and> fst (Logger_error cs hs this (Err x)
           (Some \<lparr>eo_exit = Given False, eo_e = c1, eo_error = c2\<rparr>) w) =
         (if (c1 \<noteq> None \<or> c2 \<noteq> None) \<and> \<not> message_writable x then Raised TypeError
          else Returned)
     \<and> fst (Logger_error cs hs this (Str s)
           (Some \<lparr>eo_exit = Undefined, eo_e = c1, eo_error = c2\<rparr>) w) = Returned
     \<and> fst (Logger_errorOnce cs hs this m (w\<lparr>errorOnceMessages := {}\<rparr>)) = Exited 1"
    if "lo_exit (options this) = Given True"
    by (simp add: of_string of_error plain cause_of_def that Logger_errorOnce_def)
  from kept fatal_cases general [of msg eo w] show ?thesis
    by blast
qed

theorem error_exit_merged_witness:
  "Logger_new plain_colors terminal (Some (empty_options\<lparr>lo_exit := Given True\<rparr>)) None = Inr fatal
   \<and> lo_exit (options fatal) = Given True
   \<and> fst (Logger_error plain_colors ''stk'' fatal (Str ''boom'') None initial_world) = Exited 1
   \<and> fst (Logger_error plain_colors ''stk'' fatal (Str ''boom'')
          (Some \<lparr>eo_exit = Given False, eo_e = None, eo_error = None\<rparr>) initial_world) = Returned
   \<and> fst (Logger_error plain_colors ''stk'' fatal (Err frozen_error)
          (Some \<lparr>eo_exit = Absent, eo_e = None, eo_error = None\<rparr>) initial_world) = Exited 1"
proof -
  note merged = error_exit_merged
    [where cs = plain_colors and hs = "''stk''" and env = terminal
       and os = "empty_options\<lparr>lo_exit := Given True\<rparr>" and lv = None and this = fatal
       and msg = "Str ''boom''" and s = "''boom''" and w = initial_world and x = frozen_error
       and ?c1.0 = None and ?c2.0 = None and m = "Text ''boom''" and eo = None]
  have constructed: "Logger_new plain_colors terminal
      (Some (empty_options\<lparr>lo_exit := Given True\<rparr>)) None = Inr fatal"
    by (rule fatal_constructed)
  with merged have exit: "lo_exit (options fatal) = Given True"
    by (simp add: empty_options_def)
  with merged have
    "fst (Logger_error plain_colors ''stk'' fatal (Str ''boom'') None initial_world) = Exited 1"
    "fst (Logger_error plain_colors ''stk'' fatal (Str ''boom'')
          (Some \<lparr>eo_exit = Given False, eo_e = None, eo_error = None\<rparr>) initial_world) = Returned"
    "fst (Logger_error plain_colors ''stk'' fatal (Err frozen_error)
          (Some \<lparr>eo_exit = Absent, eo_e = None, eo_error = None\<rparr>) initial_world) = Exited 1"
    by simp_all
  with constructed exit show ?thesis
    by blast
qed

text \<open>
  On the logger constructed with \<open>exit: true\<close>, \<open>error\<close> with a frozen error and
  options that hold a cause and no \<open>exit\<close> field throws a \<open>TypeError\<close>: the process
  does not end. With \<open>exit: false\<close> and a cause the call throws too: it does not
  return.
\<close>

theorem error_exit_merged_counterexample:
  "Logger_new plain_colors terminal (Some (empty_options\<lparr>lo_exit := Given True\<rparr>)) None = Inr fatal
   \<and> Logger_error plain_colors ''stk'' fatal (Err frozen_error)
        (Some \<lparr>eo_exit = Absent, eo_e = Some disk_full, eo_error = None\<rparr>) initial_world
       = (Raised TypeError, initial_world)
   \<and> Logger_error plain_colors ''stk'' fatal (Err frozen_error)
        (Some \<lparr>eo_exit = Given False, eo_e = Some disk_full, eo_error = None\<rparr>) initial_world
       = (Raised TypeError, initial_world)"
  by (simp add: fatal_constructed Logger_error_result chain_cause_cases wrap_message_cases
      cause_of_def frozen_error_def)

section \<open>The once-only sets\<close>



























section \<open>The lines of printServerUrls\<close>

text \<open>
  C9. \<open>printServerUrls\<close> does nothing but call \<open>logger.info\<close>, in this order: once
  with the Local line of each local URL, once with the Network line of each network
  URL, and then once with the hint about \<open>--host\<close> exactly when the network list is
  empty and the host option is undefined. So an empty network list with an undefined
  host gives the Local lines and one hint, and a network list that is not empty gives
  the Local lines and the Network lines and no hint.
\<close>

theorem printServerUrls_lines:
  "printServerUrls cs urls optionsHost info w =
     fold info
       (map (local_line cs) (local urls) @ map (network_line cs) (network urls)
          @ (if network urls = [] \<and> optionsHost = HostUndefined then [host_hint cs] else []))
       w
   \<and> printServerUrls cs urls optionsHost (\<lambda>m seen. seen @ [m]) [] =
       map (local_line cs) (local urls) @ map (network_line cs) (network urls)
         @ (if network urls = [] \<and> optionsHost = HostUndefined then [host_hint cs] else [])
   \<and> printServerUrls cs \<lparr>local = ls, network = []\<rparr> HostUndefined (\<lambda>m seen. seen @ [m]) [] =
       map (local_line cs) ls @ [host_hint cs]
   \<and> printServerUrls cs \<lparr>local = ls, network = n # ns\<rparr> optionsHost (\<lambda>m seen. seen @ [m]) [] =
       map (local_line cs) ls @ map (network_line cs) (n # ns)
   \<and> length (printServerUrls cs urls optionsHost (\<lambda>m seen. seen @ [m]) []) =
       length (local urls) + length (network urls)
         + (if network urls = [] \<and> optionsHost = HostUndefined then 1 else 0)"
proof -
  let ?lines = "map (local_line cs) (local urls) @ map (network_line cs) (network urls)
          @ (if network urls = [] \<and> optionsHost = HostUndefined then [host_hint cs] else [])"
  have calls: "printServerUrls cs u h f v =
     fold f
       (map (local_line cs) (local u) @ map (network_line cs) (network u)
          @ (if network u = [] \<and> h = HostUndefined then [host_hint cs] else []))
       v" for u h and f :: "string \<Rightarrow> 'b \<Rightarrow> 'b" and v
    by (simp add: printServerUrls_def fold_map comp_def Let_def)
  have recorded: "fold (\<lambda>m seen. seen @ [m]) xs seen = seen @ xs" for xs seen :: "string list"
    by (induction xs arbitrary: seen) simp_all
  have seen: "printServerUrls cs u h (\<lambda>m seen. seen @ [m]) [] =
       map (local_line cs) (local u) @ map (network_line cs) (network u)
         @ (if network u = [] \<and> h = HostUndefined then [host_hint cs] else [])" for u h
    by (simp only: calls recorded append_Nil)
  have count: "length (printServerUrls cs urls optionsHost (\<lambda>m seen. seen @ [m]) []) =
       length (local urls) + length (network urls)
         + (if network urls = [] \<and> optionsHost = HostUndefined then 1 else 0)"
    by (simp add: seen)
  show ?thesis
    using calls [of urls optionsHost info w] count by (simp add: seen)
qed

theorem printServerUrls_lines_witness:
  "printServerUrls plain_colors \<lparr>local = [''http://localhost:3000/''], network = []\<rparr>
      HostUndefined (\<lambda>m seen. seen @ [m]) []
     = [arrow @ '' Local:   http://localhost:3000/'',
        ''  '' @ arrow @ ''  Network: use --host to expose'']
   \<and> printServerUrls plain_colors
        \<lparr>local = [''http://localhost:3000/''], network = [''http://192.168.1.5:3000/'']\<rparr>
        HostUndefined (\<lambda>m seen. seen @ [m]) []
     = [arrow @ '' Local:   http://localhost:3000/'',
        arrow @ '' Network: http://192.168.1.5:3000/'']
   \<and> console (printServerUrls plain_colors
        \<lparr>local = [''http://localhost:3000/''], network = []\<rparr> (HostBoolean True)
        (Logger_info plain_colors farm) initial_world)
     = [Console MLog (''[ Farm ] '' @ arrow @ '' Local:   http://localhost:3000/'')]"
proof -
  have port: "replace_port (\<lambda>s. s) url = url" for url
    by (induction url) simp_all
  have local_text: "local_line plain_colors url = arrow @ '' Local:   '' @ url" for url
    by (simp add: local_line_def colorUrl_def plain_colors_def port)
  have network_text: "network_line plain_colors url = arrow @ '' Network: '' @ url" for url
    by (simp add: network_line_def colorUrl_def plain_colors_def port)
  have hint_text: "host_hint plain_colors = ''  '' @ arrow @ ''  Network: use --host to expose''"
    by (simp add: host_hint_def plain_colors_def)
  have info_text: "console (Logger_info plain_colors farm s initial_world)
      = [Console MLog (''[ Farm ] '' @ s)]" for s
    by (simp add: Logger_info_def logMessage_writes LOGGER_METHOD_def console_call_def
        clear_if_allowed_def farm_fields prefix_text_def initial_world_def)
  let ?one = "\<lparr>local = [''http://localhost:3000/''], network = []\<rparr>"
  let ?two = "\<lparr>local = [''http://localhost:3000/''], network = [''http://192.168.1.5:3000/'']\<rparr>"
  have hinted: "printServerUrls plain_colors ?one HostUndefined (\<lambda>m seen. seen @ [m]) []
      = map (local_line plain_colors) [''http://localhost:3000/''] @ [host_hint plain_colors]"
    using printServerUrls_lines
      [where cs = plain_colors and urls = ?one and optionsHost = HostUndefined
         and info = "\<lambda>m seen. seen @ [m]" and w = "[]"
         and ls = "[''http://localhost:3000/'']" and n = "[]" and ns = "[]"]
    by blast
  have networked: "printServerUrls plain_colors ?two HostUndefined (\<lambda>m seen. seen @ [m]) []
      = map (local_line plain_colors) [''http://localhost:3000/'']
          @ map (network_line plain_colors) [''http://192.168.1.5:3000/'']"
    using printServerUrls_lines
      [where cs = plain_colors and urls = ?two and optionsHost = HostUndefined
         and info = "\<lambda>m seen. seen @ [m]" and w = "[]"
         and ls = "[''http://localhost:3000/'']" and n = "''http://192.168.1.5:3000/''"
         and ns = "[]"]
    by blast
  have logged: "printServerUrls plain_colors ?one (HostBoolean True)
        (Logger_info plain_colors farm) initial_world
      = fold (Logger_info plain_colors farm)
          (map (local_line plain_colors) (local ?one) @ map (network_line plain_colors) (network ?one)
             @ (if network ?one = [] \<and> HostBoolean True = HostUndefined
                then [host_hint plain_colors] else []))
          initial_world"
    using printServerUrls_lines
      [where cs = plain_colors and urls = ?one and optionsHost = "HostBoolean True"
         and info = "Logger_info plain_colors farm" and w = initial_world
         and ls = "[]" and n = "[]" and ns = "[]"]
    by blast
  show ?thesis
    by (simp add: hinted networked logged local_text network_text hint_text info_text)
qed

section \<open>The report of buildErrorMessage and the stack it cleans\<close>

lemma split_newline_not_empty: "split_newline s \<noteq> []"
  by (induction s) (auto split: list.splits)

lemma split_newline_line: "newline \<notin> set l \<Longrightarrow> split_newline l = [l]"
  by (induction l) auto

lemma split_newline_append:
  "newline \<notin> set l \<Longrightarrow> split_newline (l @ newline # rest) = l # split_newline rest"
  by (induction l) auto

lemma split_newline_lines: "l \<in> set (split_newline s) \<Longrightarrow> newline \<notin> set l"
proof (induction s arbitrary: l)
  case Nil
  then show ?case by simp
next
  case (Cons c s)
  show ?case
  proof (cases "c = newline")
    case True
    with Cons show ?thesis by auto
  next
    case False
    obtain x xs where split: "split_newline s = x # xs"
      using split_newline_not_empty [of s] by (cases "split_newline s") auto
    with False Cons.prems have "l = c # x \<or> l \<in> set xs"
      by simp
    with False split Cons.IH show ?thesis
      by auto
  qed
qed

lemma split_newline_join:
  "ls \<noteq> [] \<Longrightarrow> \<forall>l \<in> set ls. newline \<notin> set l \<Longrightarrow> split_newline (join [newline] ls) = ls"
proof (induction "[newline]" ls rule: join.induct)
  case 1
  then show ?case by simp
next
  case (2 x)
  then show ?case by (simp add: split_newline_line)
next
  case (3 x y ys)
  then show ?case by (simp add: split_newline_append)
qed

lemma join_split_newline: "join [newline] (split_newline s) = s"
proof (induction s)
  case Nil
  then show ?case by simp
next
  case (Cons c s)
  obtain x xs where split: "split_newline s = x # xs"
    using split_newline_not_empty [of s] by (cases "split_newline s") auto
  with Cons show ?case
    by (cases xs) auto
qed

text \<open>No white-space character starts with the letter a, and none starts another one.\<close>

lemma js_whitespace_not_at:
  "a \<in> set js_whitespace \<Longrightarrow> take 2 (a @ rest) \<noteq> ''at''"
  unfolding js_whitespace_def set_simps insert_iff empty_iff
  by (elim disjE FalseE; simp)

lemma leading_space_append:
  "a \<in> set js_whitespace \<Longrightarrow> leading_space (a @ rest) = Some a"
  unfolding js_whitespace_def leading_space_def set_simps insert_iff empty_iff
  by (elim disjE FalseE; simp)

lemma at_pattern_matches:
  "at_pattern l \<longleftrightarrow> (\<exists>ws rest. set ws \<subseteq> set js_whitespace \<and> l = concat ws @ ''at'' @ rest)"
proof
  show "at_pattern l \<Longrightarrow> \<exists>ws rest. set ws \<subseteq> set js_whitespace \<and> l = concat ws @ ''at'' @ rest"
  proof (induction l rule: at_pattern.induct)
    case (1 l)
    show ?case
    proof (cases "take 2 l = ''at''")
      case True
      then have "l = concat [] @ ''at'' @ drop 2 l"
        by (metis append_Nil append_take_drop_id concat.simps(1))
      then show ?thesis
        by (metis empty_set empty_subsetI)
    next
      case False
      with "1.prems" obtain a where lead: "leading_space l = Some a"
        and rest: "at_pattern (drop (length a) l)"
        by (subst (asm) at_pattern.simps) (auto split: option.splits)
      from lead have a: "a \<in> set js_whitespace" and pre: "take (length a) l = a"
        by (auto simp: leading_space_def find_Some_iff)
      from "1.IH" [OF False lead rest] obtain ws r
        where ws: "set ws \<subseteq> set js_whitespace" and eq: "drop (length a) l = concat ws @ ''at'' @ r"
        by blast
      from pre eq have "l = concat (a # ws) @ ''at'' @ r"
        by (metis append.assoc append_take_drop_id concat.simps(2))
      with a ws show ?thesis
        by (metis insert_subset list.simps(15))
    qed
  qed
next
  assume "\<exists>ws rest. set ws \<subseteq> set js_whitespace \<and> l = concat ws @ ''at'' @ rest"
  then obtain ws rest where ws: "set ws \<subseteq> set js_whitespace" and l: "l = concat ws @ ''at'' @ rest"
    by blast
  from ws have "at_pattern (concat ws @ ''at'' @ rest)"
  proof (induction ws)
    case Nil
    then show ?case by (subst at_pattern.simps) simp
  next
    case (Cons a ws)
    then have a: "a \<in> set js_whitespace" and tail: "at_pattern (concat ws @ ''at'' @ rest)"
      by auto
    have "take 2 (a @ concat ws @ ''at'' @ rest) \<noteq> ''at''"
      by (rule js_whitespace_not_at [OF a])
    moreover have "leading_space (a @ concat ws @ ''at'' @ rest) = Some a"
      by (rule leading_space_append [OF a])
    ultimately show ?case
      using tail by (subst at_pattern.simps) simp
  qed
  with l show "at_pattern l" by simp
qed

text \<open>
  C8. The report of \<open>buildErrorMessage\<close> is the given lines followed, in this order,
  by the plugin line, the file line, the frame block and the stack block, joined by
  line breaks; each of the four is there only when its field is present (and not the
  empty string), the file line ends with \<open>:line:column\<close> only when \<open>loc\<close> is
  present, and the stack block only when \<open>includeStack\<close> holds. With every field
  missing the report is the given lines alone. The stack block is \<open>pad\<close> of the
  cleaned stack, whose lines are exactly the lines of the stack that match the
  pattern, in their order: a line matches when it is white space followed by \<open>at\<close>
  and anything.
\<close>

theorem buildErrorMessage_report:
  "buildErrorMessage cs pad err args includeStack =
     join [newline]
       (args
        @ (case err_plugin err of
             Some p \<Rightarrow> if p \<noteq> [] then [''  Plugin: '' @ magenta cs p] else []
           | None \<Rightarrow> [])
        @ (case err_id err of
             Some f \<Rightarrow>
               if f \<noteq> [] then
                 [''  File: '' @ cyan cs f
                    @ (case err_loc err of
                         Some l \<Rightarrow> '':'' @ show_int (line l) @ '':'' @ show_int (column l)
                       | None \<Rightarrow> [])]
               else []
           | None \<Rightarrow> [])
        @ (case err_frame err of
             Some f \<Rightarrow> if f \<noteq> [] then [yellow cs (pad f)] else []
           | None \<Rightarrow> [])
        @ (case err_stack err of
             Some st \<Rightarrow> if includeStack \<and> st \<noteq> [] then [pad (cleanStack st)] else []
           | None \<Rightarrow> []))
   \<and> buildErrorMessage cs pad
        \<lparr>err_plugin = None, err_loc = loc, err_id = None, err_frame = None, err_stack = None\<rparr>
        args includeStack = join [newline] args
   \<and> split_newline (cleanStack st) =
        (if filter at_pattern (split_newline st) = [] then [[]]
         else filter at_pattern (split_newline st))
   \<and> (at_pattern l \<longleftrightarrow>
        (\<exists>ws rest. set ws \<subseteq> set js_whitespace \<and> l = concat ws @ ''at'' @ rest))"
proof -
  have report: "buildErrorMessage cs pad e args includeStack =
     join [newline]
       (args
        @ (case err_plugin e of
             Some p \<Rightarrow> if p \<noteq> [] then [''  Plugin: '' @ magenta cs p] else []
           | None \<Rightarrow> [])
        @ (case err_id e of
             Some f \<Rightarrow>
               if f \<noteq> [] then
                 [''  File: '' @ cyan cs f
                    @ (case err_loc e of
                         Some l \<Rightarrow> '':'' @ show_int (line l) @ '':'' @ show_int (column l)
                       | None \<Rightarrow> [])]
               else []
           | None \<Rightarrow> [])
        @ (case err_frame e of
             Some f \<Rightarrow> if f \<noteq> [] then [yellow cs (pad f)] else []
           | None \<Rightarrow> [])
        @ (case err_stack e of
             Some st \<Rightarrow> if includeStack \<and> st \<noteq> [] then [pad (cleanStack st)] else []
           | None \<Rightarrow> []))" for e
    by (cases "err_plugin e"; cases "err_id e"; cases "err_frame e"; cases "err_stack e")
       (simp_all add: buildErrorMessage_def Let_def)
  have bare: "buildErrorMessage cs pad
        \<lparr>err_plugin = None, err_loc = loc, err_id = None, err_frame = None, err_stack = None\<rparr>
        args includeStack = join [newline] args"
    by (simp add: report)
  have cleaned: "split_newline (cleanStack st) =
        (if filter at_pattern (split_newline st) = [] then [[]]
         else filter at_pattern (split_newline st))"
  proof (cases "filter at_pattern (split_newline st) = []")
    case True
    then show ?thesis by (simp add: cleanStack_def)
  next
    case False
    have "\<forall>l \<in> set (filter at_pattern (split_newline st)). newline \<notin> set l"
      using split_newline_lines [of _ st] by auto
    with False show ?thesis
      by (simp add: cleanStack_def split_newline_join)
  qed
  from report [of err] bare cleaned at_pattern_matches [of l] show ?thesis
    by blast
qed

theorem buildErrorMessage_report_witness:
  "buildErrorMessage plain_colors pad2
      \<lparr>err_plugin = None, err_loc = Some \<lparr>line = 3, column = 5\<rparr>, err_id = Some ''src/a.ts'',
       err_frame = None,
       err_stack = Some example_stack\<rparr>
      [] True
     = ''  File: src/a.ts:3:5'' @ [newline] @ ''      at foo (a.ts:3:5)''
   \<and> split_newline (cleanStack example_stack)
     = [''    at foo (a.ts:3:5)'']
   \<and> at_pattern ''    at foo (a.ts:3:5)''"
proof -
  let ?stack = example_stack
  let ?err = "\<lparr>err_plugin = None, err_loc = Some \<lparr>line = 3, column = 5\<rparr>,
       err_id = Some ''src/a.ts'', err_frame = None, err_stack = Some ?stack\<rparr>"
  note report = buildErrorMessage_report
    [where cs = plain_colors and pad = pad2 and err = ?err and args = "[]"
       and includeStack = True and st = ?stack and l = "''    at foo (a.ts:3:5)''"
       and loc = None]
  have lines: "split_newline ?stack = [''Error: x'', ''    at foo (a.ts:3:5)'', ''other junk'']"
    by (simp add: example_stack_def newline_def)
  have space: "leading_space ('' '' @ rest) = Some '' ''" for rest
    by (rule leading_space_append) (simp add: js_whitespace_def)
  have at: "at_pattern (''at'' @ rest)" for rest
    by (subst at_pattern.simps) simp
  have indent: "at_pattern ('' '' @ rest)" if "at_pattern rest" for rest
    using that space [of rest] by (subst at_pattern.simps) simp
  have frame: "at_pattern ''    at foo (a.ts:3:5)''"
    using indent [OF indent [OF indent [OF indent [OF at [of "'' foo (a.ts:3:5)''"]]]]]
    by simp
  have first: "\<not> at_pattern ''Error: x''"
    by (subst at_pattern.simps) (simp add: leading_space_def js_whitespace_def)
  have last: "\<not> at_pattern ''other junk''"
    by (subst at_pattern.simps) (simp add: leading_space_def js_whitespace_def)
  have kept: "filter at_pattern (split_newline ?stack) = [''    at foo (a.ts:3:5)'']"
    using frame first last by (simp only: lines filter.simps if_True if_False)
  from report [THEN conjunct2, THEN conjunct2, THEN conjunct1] have cleaned_lines:
    "split_newline (cleanStack ?stack) = [''    at foo (a.ts:3:5)'']"
    by (simp only: kept list.simps if_False)
  have cleaned: "cleanStack ?stack = ''    at foo (a.ts:3:5)''"
    by (simp only: cleanStack_def kept join.simps)
  have padded: "pad2 ''    at foo (a.ts:3:5)'' = ''      at foo (a.ts:3:5)''"
    by (simp add: pad2_def newline_def)
  have number: "show_int 3 = ''3''" "show_int 5 = ''5''"
    by (simp_all add: show_int_def)
  have present: "example_stack \<noteq> []"
    by (simp add: example_stack_def)
  from report [THEN conjunct1] have "buildErrorMessage plain_colors pad2 ?err [] True
      = ''  File: src/a.ts:3:5'' @ [newline] @ ''      at foo (a.ts:3:5)''"
    by (simp add: cleaned padded number present plain_colors_def)
  with cleaned_lines frame show ?thesis
    by simp
qed

end
